theory Spec2Isabelle
  imports
    Complex_Main
    "HOL-Library.Multiset"
    "HOL-Library.Char_ord"
    "HOL-Library.List_Lexorder"
    "HOL-Library.Product_Lexorder"
begin

section \<open>Python values\<close>

text \<open>
  The values that \<^verbatim>\<open>request.json\<close> and \<^verbatim>\<open>response.json()\<close> hand to
  \<^verbatim>\<open>app.py\<close>: what Python's JSON decoder builds. A number is its exact rational value
  (\<^verbatim>\<open>int\<close> and finite \<^verbatim>\<open>float\<close> alike; the rounding of a binary floating-point
  product and the literals NaN and Infinity are outside the model). A \<open>JObj\<close> is a
  \<^verbatim>\<open>dict\<close> with string keys, read with \<open>map_of\<close>.
\<close>

datatype json =
    JNull
  | JBool bool
  | JNum rat
  | JStr string
  | JArr "json list"
  | JObj "(string \<times> json) list"

datatype py_exception = AttributeError | KeyError | TypeError | ValueError

text \<open>Truth value testing, as \<^verbatim>\<open>not x\<close> and \<^verbatim>\<open>x and ...\<close> use it.\<close>

fun truthy :: "json \<Rightarrow> bool" where
  "truthy JNull = False"
| "truthy (JBool b) = b"
| "truthy (JNum x) = (x \<noteq> 0)"
| "truthy (JStr s) = (s \<noteq> [])"
| "truthy (JArr xs) = (xs \<noteq> [])"
| "truthy (JObj fs) = (fs \<noteq> [])"

text \<open>\<^verbatim>\<open>bool\<close> is a subclass of \<^verbatim>\<open>int\<close>: \<^verbatim>\<open>True\<close> counts as 1 in arithmetic and comparisons.\<close>

fun as_number :: "json \<Rightarrow> rat option" where
  "as_number (JNum x) = Some x"
| "as_number (JBool b) = Some (if b then 1 else 0)"
| "as_number _ = None"

text \<open>The operator \<^verbatim>\<open>==\<close>, which never raises on these values.\<close>

fun py_eq :: "json \<Rightarrow> json \<Rightarrow> bool"
  and py_eq_list :: "json list \<Rightarrow> json list \<Rightarrow> bool"
  and py_eq_items :: "(string \<times> json) list \<Rightarrow> (string \<times> json) list \<Rightarrow> bool"
where
  "py_eq JNull b = (b = JNull)"
| "py_eq (JBool x) b = (as_number b = Some (if x then 1 else 0))"
| "py_eq (JNum x) b = (as_number b = Some x)"
| "py_eq (JStr s) b = (b = JStr s)"
| "py_eq (JArr xs) b = (case b of JArr ys \<Rightarrow> py_eq_list xs ys | _ \<Rightarrow> False)"
| "py_eq (JObj fs) b =
     (case b of JObj gs \<Rightarrow> length fs = length gs \<and> py_eq_items fs gs | _ \<Rightarrow> False)"
| "py_eq_list [] ys = (ys = [])"
| "py_eq_list (x # xs) ys =
     (case ys of [] \<Rightarrow> False | y # ys' \<Rightarrow> py_eq x y \<and> py_eq_list xs ys')"
| "py_eq_items [] gs = True"
| "py_eq_items ((k, v) # fs) gs =
     (case map_of gs k of None \<Rightarrow> False | Some w \<Rightarrow> py_eq v w \<and> py_eq_items fs gs)"

text \<open>
  The operator \<^verbatim>\<open>a > b\<close>. Numbers compare by value, strings and lists
  lexicographically (a list finds the first index whose items are not \<^verbatim>\<open>==\<close> and
  compares those); every other pairing raises \<^verbatim>\<open>TypeError\<close>. Strings are byte
  lists in UTF-8, whose lexicographic order is the order of the code points.
\<close>

fun py_gt :: "json \<Rightarrow> json \<Rightarrow> py_exception + bool"
  and py_gt_list :: "json list \<Rightarrow> json list \<Rightarrow> py_exception + bool"
where
  "py_gt JNull b = Inl TypeError"
| "py_gt (JBool x) b =
     (case as_number b of None \<Rightarrow> Inl TypeError | Some y \<Rightarrow> Inr ((if x then 1 else 0) > y))"
| "py_gt (JNum x) b =
     (case as_number b of None \<Rightarrow> Inl TypeError | Some y \<Rightarrow> Inr (x > y))"
| "py_gt (JStr s) b = (case b of JStr t \<Rightarrow> Inr (s > t) | _ \<Rightarrow> Inl TypeError)"
| "py_gt (JArr xs) b = (case b of JArr ys \<Rightarrow> py_gt_list xs ys | _ \<Rightarrow> Inl TypeError)"
| "py_gt (JObj fs) b = Inl TypeError"
| "py_gt_list [] ys = Inr False"
| "py_gt_list (x # xs) ys =
     (case ys of
        [] \<Rightarrow> Inr True
      | y # ys' \<Rightarrow> if py_eq x y then py_gt_list xs ys' else py_gt x y)"

text \<open>The operator \<^verbatim>\<open>v * n\<close> for an \<^verbatim>\<open>int\<close> \<open>n\<close>: a product, or a repetition.\<close>

fun py_mul :: "json \<Rightarrow> nat \<Rightarrow> py_exception + json" where
  "py_mul (JNum x) n = Inr (JNum (x * of_nat n))"
| "py_mul (JBool b) n = Inr (JNum ((if b then 1 else 0) * of_nat n))"
| "py_mul (JStr s) n = Inr (JStr (concat (replicate n s)))"
| "py_mul (JArr xs) n = Inr (JArr (concat (replicate n xs)))"
| "py_mul JNull n = Inl TypeError"
| "py_mul (JObj fs) n = Inl TypeError"

text \<open>
  \<^verbatim>\<open>max(iterable, key=f)\<close>: the first item is the maximum so far, and a later item
  replaces it only when its key is greater (\<^verbatim>\<open>a > b\<close>) than the key of the maximum so far.
  An empty iterable raises \<^verbatim>\<open>ValueError\<close>.
\<close>

fun max_from :: "(json \<Rightarrow> json) \<Rightarrow> json \<Rightarrow> json \<Rightarrow> json list \<Rightarrow> py_exception + json" where
  "max_from f maxitem maxval [] = Inr maxitem"
| "max_from f maxitem maxval (x # xs) =
     (case py_gt (f x) maxval of
        Inl err \<Rightarrow> Inl err
      | Inr b \<Rightarrow> if b then max_from f x (f x) xs else max_from f maxitem maxval xs)"

definition py_max :: "json list \<Rightarrow> (json \<Rightarrow> json) \<Rightarrow> py_exception + json" where
  "py_max xs f = (case xs of [] \<Rightarrow> Inl ValueError | x # rest \<Rightarrow> max_from f x (f x) rest)"

subsection \<open>Dictionaries\<close>

text \<open>
  A \<^verbatim>\<open>dict\<close> keeps its keys in insertion order; storing under a key that is already
  there (\<^verbatim>\<open>==\<close>) replaces the value and keeps the key's place. Lists and dicts are
  unhashable.
\<close>

type_synonym pydict = "(json \<times> json) list"

fun hashable :: "json \<Rightarrow> bool" where
  "hashable (JArr xs) = False"
| "hashable (JObj fs) = False"
| "hashable _ = True"

fun dict_set :: "pydict \<Rightarrow> json \<Rightarrow> json \<Rightarrow> pydict" where
  "dict_set [] k v = [(k, v)]"
| "dict_set ((k', v') # d) k v =
     (if py_eq k' k then (k', v) # d else (k', v') # dict_set d k v)"

fun dict_lookup :: "pydict \<Rightarrow> json \<Rightarrow> json option" where
  "dict_lookup [] k = None"
| "dict_lookup ((k', v') # d) k = (if py_eq k' k then Some v' else dict_lookup d k)"

definition dict_keys :: "pydict \<Rightarrow> json list" where
  "dict_keys d = map fst d"

text \<open>\<^verbatim>\<open>d.get(k)\<close> answers \<^verbatim>\<open>None\<close> for a missing key; \<^verbatim>\<open>d[k]\<close> raises.\<close>

definition dict_get :: "pydict \<Rightarrow> json \<Rightarrow> json" where
  "dict_get d k = (case dict_lookup d k of None \<Rightarrow> JNull | Some v \<Rightarrow> v)"

definition dict_subscript :: "pydict \<Rightarrow> json \<Rightarrow> py_exception + json" where
  "dict_subscript d k = (case dict_lookup d k of None \<Rightarrow> Inl KeyError | Some v \<Rightarrow> Inr v)"

text \<open>
  \<^verbatim>\<open>item['label']\<close> on a decoded JSON value: a dict looks the key up, every other
  value raises \<^verbatim>\<open>TypeError\<close> (not subscriptable, or indices must be integers).
\<close>

definition subscript_str :: "json \<Rightarrow> string \<Rightarrow> py_exception + json" where
  "subscript_str item k =
     (case item of
        JObj fs \<Rightarrow> (case map_of fs k of None \<Rightarrow> Inl KeyError | Some v \<Rightarrow> Inr v)
      | _ \<Rightarrow> Inl TypeError)"

text \<open>
  \<^verbatim>\<open>data.get('text')\<close>: only a dict has the method; on it a missing key is
  \<^verbatim>\<open>None\<close>.
\<close>

definition method_get :: "json \<Rightarrow> string \<Rightarrow> py_exception + json" where
  "method_get data k =
     (case data of
        JObj fs \<Rightarrow> Inr (case map_of fs k of None \<Rightarrow> JNull | Some v \<Rightarrow> v)
      | _ \<Rightarrow> Inl AttributeError)"

section \<open>The environment of one request\<close>

text \<open>
  What the remote classifier answers (\<^verbatim>\<open>requests.post\<close>, \<^verbatim>\<open>raise_for_status\<close>,
  \<^verbatim>\<open>response.json()\<close>): a transport failure or bad status, a body that is not JSON,
  or the decoded body.
\<close>

datatype api_reply = RequestException | JSONDecodeError | Decoded json

record datetime =
  dt_year :: nat
  dt_month :: nat
  dt_day :: nat
  dt_hour :: nat
  dt_minute :: nat
  dt_second :: nat

text \<open>
  One row of \<^verbatim>\<open>journal_entries\<close>, its fields named after the columns:
  \<^verbatim>\<open>id INT AUTO_INCREMENT PRIMARY KEY, entry_text TEXT NOT NULL,
  primary_emotion VARCHAR(50) NOT NULL, primary_score DECIMAL(5, 2) NOT NULL,
  timestamp DATETIME DEFAULT CURRENT_TIMESTAMP\<close>.
\<close>

record journal_row =
  col_id :: nat
  col_entry_text :: string
  col_primary_emotion :: string
  col_primary_score :: rat
  col_timestamp :: datetime

record db =
  rows :: "journal_row list"
  auto_increment :: nat

text \<open>
  Everything outside the process that one request meets:
  \<^item> \<open>classifier\<close>: the remote endpoint's answer to the payload \<^verbatim>\<open>{"inputs": text}\<close>;
  \<^item> \<open>connect_ok\<close>: whether \<^verbatim>\<open>mysql.connector.connect\<close> succeeds;
  \<^item> \<open>db_fault\<close>: whether the statement or the commit raises \<^verbatim>\<open>mysql.connector.Error\<close>
    for a reason that is not in the data (the server, the network);
  \<^item> \<open>now\<close>: the server's \<^verbatim>\<open>CURRENT_TIMESTAMP\<close>;
  \<^item> \<open>convert_other\<close>: what the connector and the server make of parameters that are
    not (string, string, number), which depends on their versions: the values they
    store, or \<open>None\<close> when they raise;
  \<^item> \<open>tie_rank\<close>: the order in which the server returns rows whose \<^verbatim>\<open>ORDER BY\<close>
    keys are equal, which SQL leaves to the server.
\<close>

record env =
  classifier :: "json \<Rightarrow> api_reply"
  connect_ok :: bool
  db_fault :: bool
  now :: datetime
  convert_other :: "json \<Rightarrow> json \<Rightarrow> json \<Rightarrow> (string \<times> string \<times> rat) option"
  tie_rank :: "journal_row \<Rightarrow> nat"

datatype effect =
    ClassifierPost json
  | DbConnect
  | DbInsert json json json
  | DbSelect

text \<open>
  A response is \<^verbatim>\<open>jsonify(body)\<close> with its status, the list of row dicts that
  \<^verbatim>\<open>get_moods\<close> hands to \<^verbatim>\<open>jsonify\<close>, or the 500 page of the framework for an
  exception that no handler caught.
\<close>

record mood_entry =
  id_field :: nat
  entry_text_field :: string
  primary_emotion_field :: string
  primary_score_field :: rat
  timestamp_field :: string

datatype http_response =
    JsonResponse nat json
  | JsonEntries nat "mood_entry list"
  | InternalServerError py_exception

record outcome =
  response :: http_response
  store :: db
  effects :: "effect list"

section \<open>The store\<close>

text \<open>
  The database server is not part of the repository. The model follows the three
  statements that \<^verbatim>\<open>app.py\<close> sends (the \<^verbatim>\<open>CREATE TABLE\<close> of \<^verbatim>\<open>setup_database\<close>,
  the \<^verbatim>\<open>INSERT\<close> of \<^verbatim>\<open>add_entry\<close>, the \<^verbatim>\<open>SELECT\<close> of \<^verbatim>\<open>get_moods\<close>) and what a
  MySQL server in its default configuration (transactional tables, strict mode) does
  with them, on a table that only \<^verbatim>\<open>add_entry\<close> writes.
\<close>

datatype connection = Connection

datatype mysql_error = OperationalError | ProgrammingError | DataError

definition get_db_connection :: "env \<Rightarrow> connection option" where
  "get_db_connection e = (if connect_ok e then Some Connection else None)"

text \<open>
  A value stored in a \<^verbatim>\<open>DECIMAL(5, 2)\<close> column is rounded to two fractional digits,
  half away from zero; in the server's default strict mode a value that then needs more
  than five digits is an error.
\<close>

definition round_half_away :: "rat \<Rightarrow> int" where
  "round_half_away x = (if 0 \<le> x then \<lfloor>x + 1 / 2\<rfloor> else - \<lfloor>- x + 1 / 2\<rfloor>)"

definition decimal_5_2 :: "rat \<Rightarrow> rat option" where
  "decimal_5_2 x =
     (let q = round_half_away (x * 100)
      in if \<bar>q\<bar> \<le> 99999 then Some (rat_of_int q / 100) else None)"

definition to_mysql :: "env \<Rightarrow> json \<Rightarrow> json \<Rightarrow> json \<Rightarrow> (string \<times> string \<times> rat) option" where
  "to_mysql e t l s =
     (case (t, l, s) of
        (JStr text, JStr label, JNum score) \<Rightarrow> Some (text, label, score)
      | _ \<Rightarrow> convert_other e t l s)"

text \<open>
  \<^verbatim>\<open>cursor.execute(INSERT ...)\<close> and \<^verbatim>\<open>conn.commit()\<close>: one transaction, which
  either appends one row, with the next id and the server's time, or raises and
  leaves the table as it was. Strict mode refuses a text beyond the 65535 bytes of
  \<^verbatim>\<open>TEXT\<close> and a label beyond the 50 characters of \<^verbatim>\<open>VARCHAR(50)\<close>.
\<close>

definition execute_insert :: "env \<Rightarrow> db \<Rightarrow> json \<Rightarrow> json \<Rightarrow> json \<Rightarrow> mysql_error + db" where
  "execute_insert e d t l s =
     (if db_fault e then Inl OperationalError
      else
        (case to_mysql e t l s of
           None \<Rightarrow> Inl ProgrammingError
         | Some (text, label, score) \<Rightarrow>
             if length text > 65535 \<or> length label > 50 then Inl DataError
             else
               (case decimal_5_2 score of
                  None \<Rightarrow> Inl DataError
                | Some dec \<Rightarrow>
                    Inr (d\<lparr>rows := rows d @
                              [\<lparr>col_id = auto_increment d, col_entry_text = text,
                                col_primary_emotion = label, col_primary_score = dec,
                                col_timestamp = now e\<rparr>],
                           auto_increment := Suc (auto_increment d)\<rparr>))))"

text \<open>
  \<^verbatim>\<open>SELECT ... ORDER BY timestamp DESC LIMIT n\<close>: the rows sorted by timestamp,
  newest first, rows of equal timestamp in the server's order, cut after \<open>n\<close>.
\<close>

definition dt_key :: "datetime \<Rightarrow> nat \<times> nat \<times> nat \<times> nat \<times> nat \<times> nat" where
  "dt_key t = (dt_year t, dt_month t, dt_day t, dt_hour t, dt_minute t, dt_second t)"

definition precedes :: "env \<Rightarrow> journal_row \<Rightarrow> journal_row \<Rightarrow> bool" where
  "precedes e a b =
     (dt_key (col_timestamp b) < dt_key (col_timestamp a) \<or>
      dt_key (col_timestamp a) = dt_key (col_timestamp b) \<and> tie_rank e a \<le> tie_rank e b)"

fun insert_row :: "env \<Rightarrow> journal_row \<Rightarrow> journal_row list \<Rightarrow> journal_row list" where
  "insert_row e x [] = [x]"
| "insert_row e x (y # ys) = (if precedes e x y then x # y # ys else y # insert_row e x ys)"

definition order_by_timestamp_desc :: "env \<Rightarrow> journal_row list \<Rightarrow> journal_row list" where
  "order_by_timestamp_desc e rs = foldr (insert_row e) rs []"

definition list_recent :: "env \<Rightarrow> nat \<Rightarrow> journal_row list \<Rightarrow> journal_row list" where
  "list_recent e limit rs = take limit (order_by_timestamp_desc e rs)"

section \<open>The classifier client\<close>

text \<open>
  The dict comprehension \<^verbatim>\<open>{item['label']: item['score'] for item in result[0]}\<close>.
  The two subscripts raise \<^verbatim>\<open>KeyError\<close> or \<^verbatim>\<open>TypeError\<close>, an unhashable label
  raises \<^verbatim>\<open>TypeError\<close>.
\<close>

fun dict_comprehension :: "json list \<Rightarrow> pydict \<Rightarrow> py_exception + pydict" where
  "dict_comprehension [] d = Inr d"
| "dict_comprehension (item # items) d =
     (case subscript_str item ''label'' of
        Inl err \<Rightarrow> Inl err
      | Inr label \<Rightarrow>
          (case subscript_str item ''score'' of
             Inl err \<Rightarrow> Inl err
           | Inr score \<Rightarrow>
               if hashable label then dict_comprehension items (dict_set d label score)
               else Inl TypeError))"

text \<open>
  \<^verbatim>\<open>analyze_emotion\<close>. The two \<^verbatim>\<open>except\<close> clauses catch the transport's and the
  decoder's exceptions only, so an exception of the comprehension leaves the function.
  The test \<^verbatim>\<open>result and isinstance(result, list) and isinstance(result[0], list)\<close>
  holds exactly for a non-empty list whose first item is a list.
\<close>

definition analyze_emotion :: "env \<Rightarrow> json \<Rightarrow> py_exception + pydict option" where
  "analyze_emotion e text =
     (case classifier e text of
        RequestException \<Rightarrow> Inr None
      | JSONDecodeError \<Rightarrow> Inr None
      | Decoded result \<Rightarrow>
          (case result of
             JArr (JArr items # rest) \<Rightarrow>
               (case dict_comprehension items [] of
                  Inl err \<Rightarrow> Inl err
                | Inr emotion_scores \<Rightarrow> Inr (Some emotion_scores))
           | _ \<Rightarrow> Inr None))"

section \<open>The routes\<close>

definition error_body :: "string \<Rightarrow> json" where
  "error_body msg = JObj [(''error'', JStr msg)]"

definition success_body :: "json \<Rightarrow> json \<Rightarrow> json" where
  "success_body primary_emotion primary_score =
     JObj [(''message'', JStr ''Entry saved successfully''),
           (''emotion'', primary_emotion), (''score'', primary_score)]"

text \<open>Lines 136 and 137 of \<^verbatim>\<open>add_entry\<close>: the primary emotion and its score.\<close>

definition primary :: "pydict \<Rightarrow> py_exception + json \<times> json" where
  "primary emotion_data =
     (case py_max (dict_keys emotion_data) (dict_get emotion_data) of
        Inl err \<Rightarrow> Inl err
      | Inr primary_emotion \<Rightarrow>
          (case dict_subscript emotion_data primary_emotion of
             Inl err \<Rightarrow> Inl err
           | Inr v \<Rightarrow>
               (case py_mul v 100 of
                  Inl err \<Rightarrow> Inl err
                | Inr primary_score \<Rightarrow> Inr (primary_emotion, primary_score))))"

text \<open>Lines 139 to 160 of \<^verbatim>\<open>add_entry\<close>: saving the entry.\<close>

definition save_entry :: "env \<Rightarrow> db \<Rightarrow> json \<Rightarrow> json \<Rightarrow> json \<Rightarrow> outcome" where
  "save_entry e d entry_text primary_emotion primary_score =
     (case get_db_connection e of
        None \<Rightarrow>
          \<lparr>response = JsonResponse 500 (error_body ''Database connection failed''),
           store = d, effects = [ClassifierPost entry_text, DbConnect]\<rparr>
      | Some conn \<Rightarrow>
          (case execute_insert e d entry_text primary_emotion primary_score of
             Inl err \<Rightarrow>
               \<lparr>response = JsonResponse 500 (error_body ''Failed to save entry to database''),
                store = d,
                effects = [ClassifierPost entry_text, DbConnect,
                           DbInsert entry_text primary_emotion primary_score]\<rparr>
           | Inr d' \<Rightarrow>
               \<lparr>response = JsonResponse 200 (success_body primary_emotion primary_score),
                store = d',
                effects = [ClassifierPost entry_text, DbConnect,
                           DbInsert entry_text primary_emotion primary_score]\<rparr>))"

text \<open>
  \<^verbatim>\<open>POST /add_entry\<close>, on the decoded body \<open>data\<close> of the request.
\<close>

definition add_entry :: "env \<Rightarrow> db \<Rightarrow> json \<Rightarrow> outcome" where
  "add_entry e d data =
     (case method_get data ''text'' of
        Inl err \<Rightarrow> \<lparr>response = InternalServerError err, store = d, effects = []\<rparr>
      | Inr entry_text \<Rightarrow>
          if \<not> truthy entry_text then
            \<lparr>response = JsonResponse 400 (error_body ''No text provided''),
             store = d, effects = []\<rparr>
          else
            (case analyze_emotion e entry_text of
               Inl err \<Rightarrow>
                 \<lparr>response = InternalServerError err, store = d,
                  effects = [ClassifierPost entry_text]\<rparr>
             | Inr None \<Rightarrow>
                 \<lparr>response = JsonResponse 500 (error_body ''Failed to analyze emotion''),
                  store = d, effects = [ClassifierPost entry_text]\<rparr>
             | Inr (Some emotion_data) \<Rightarrow>
                 if emotion_data = [] then
                   \<lparr>response = JsonResponse 500 (error_body ''Failed to analyze emotion''),
                    store = d, effects = [ClassifierPost entry_text]\<rparr>
                 else
                   (case primary emotion_data of
                      Inl err \<Rightarrow>
                        \<lparr>response = InternalServerError err, store = d,
                         effects = [ClassifierPost entry_text]\<rparr>
                    | Inr (primary_emotion, primary_score) \<Rightarrow>
                        save_entry e d entry_text primary_emotion primary_score)))"

subsection \<open>Listing\<close>

text \<open>
  \<^verbatim>\<open>datetime.isoformat()\<close> of a value without microseconds:
  \<^verbatim>\<open>'%04d-%02d-%02dT%02d:%02d:%02d'\<close>.
\<close>

definition digit :: "nat \<Rightarrow> char" where
  "digit n = ''0123456789'' ! n"

fun nat_digits :: "nat \<Rightarrow> string" where
  "nat_digits n = (if n < 10 then [digit n] else nat_digits (n div 10) @ [digit (n mod 10)])"

definition zfill :: "nat \<Rightarrow> string \<Rightarrow> string" where
  "zfill w s = replicate (w - length s) (CHR ''0'') @ s"

definition isoformat :: "datetime \<Rightarrow> string" where
  "isoformat t =
     zfill 4 (nat_digits (dt_year t)) @ ''-'' @ zfill 2 (nat_digits (dt_month t)) @ ''-'' @
     zfill 2 (nat_digits (dt_day t)) @ ''T'' @ zfill 2 (nat_digits (dt_hour t)) @ '':'' @
     zfill 2 (nat_digits (dt_minute t)) @ '':'' @ zfill 2 (nat_digits (dt_second t))"

definition format_entry :: "journal_row \<Rightarrow> mood_entry" where
  "format_entry r =
     \<lparr>id_field = col_id r, entry_text_field = col_entry_text r,
      primary_emotion_field = col_primary_emotion r,
      primary_score_field = col_primary_score r,
      timestamp_field = isoformat (col_timestamp r)\<rparr>"

text \<open>\<^verbatim>\<open>GET /moods\<close>.\<close>

definition get_moods :: "env \<Rightarrow> db \<Rightarrow> outcome" where
  "get_moods e d =
     (case get_db_connection e of
        None \<Rightarrow>
          \<lparr>response = JsonResponse 500 (error_body ''Database connection failed''),
           store = d, effects = [DbConnect]\<rparr>
      | Some conn \<Rightarrow>
          if db_fault e then
            \<lparr>response = JsonResponse 500 (error_body ''Failed to retrieve moods''),
             store = d, effects = [DbConnect, DbSelect]\<rparr>
          else
            \<lparr>response = JsonEntries 200 (map format_entry (list_recent e 30 (rows d))),
             store = d, effects = [DbConnect, DbSelect]\<rparr>)"

section \<open>Calendar dates and ISO 8601\<close>

text \<open>
  A \<^verbatim>\<open>datetime\<close> object of Python is a date of the proleptic Gregorian calendar with
  a time of day: the class admits no other field values.
\<close>

definition is_leap :: "nat \<Rightarrow> bool" where
  "is_leap y = (y mod 4 = 0 \<and> (y mod 100 \<noteq> 0 \<or> y mod 400 = 0))"

definition days_in_month :: "nat \<Rightarrow> nat \<Rightarrow> nat" where
  "days_in_month y m =
     (if m = 2 then (if is_leap y then 29 else 28)
      else if m = 4 \<or> m = 6 \<or> m = 9 \<or> m = 11 then 30 else 31)"

definition valid_datetime :: "datetime \<Rightarrow> bool" where
  "valid_datetime t =
     (1 \<le> dt_year t \<and> dt_year t \<le> 9999 \<and> 1 \<le> dt_month t \<and> dt_month t \<le> 12 \<and>
      1 \<le> dt_day t \<and> dt_day t \<le> days_in_month (dt_year t) (dt_month t) \<and>
      dt_hour t < 24 \<and> dt_minute t < 60 \<and> dt_second t < 60)"

text \<open>
  The specification's ``valid ISO 8601 timestamp string'', read as the extended
  calendar date and time of day \<^verbatim>\<open>YYYY-MM-DDThh:mm:ss\<close>: nineteen characters, digits
  around the separators, and field values of a real date and time.
\<close>

definition is_digit :: "char \<Rightarrow> bool" where
  "is_digit c = (c \<in> set ''0123456789'')"

definition digit_value :: "char \<Rightarrow> nat" where
  "digit_value c = of_char c - 48"

definition digits_value :: "string \<Rightarrow> nat" where
  "digits_value s = foldl (\<lambda>n c. 10 * n + digit_value c) 0 s"

definition iso8601_datetime :: "string \<Rightarrow> bool" where
  "iso8601_datetime s =
     (length s = 19 \<and>
      s ! 4 = CHR ''-'' \<and> s ! 7 = CHR ''-'' \<and> s ! 10 = CHR ''T'' \<and>
      s ! 13 = CHR '':'' \<and> s ! 16 = CHR '':'' \<and>
      list_all is_digit (take 4 s) \<and> list_all is_digit (take 2 (drop 5 s)) \<and>
      list_all is_digit (take 2 (drop 8 s)) \<and> list_all is_digit (take 2 (drop 11 s)) \<and>
      list_all is_digit (take 2 (drop 14 s)) \<and> list_all is_digit (take 2 (drop 17 s)) \<and>
      1 \<le> digits_value (take 2 (drop 5 s)) \<and> digits_value (take 2 (drop 5 s)) \<le> 12 \<and>
      1 \<le> digits_value (take 2 (drop 8 s)) \<and>
      digits_value (take 2 (drop 8 s)) \<le>
        days_in_month (digits_value (take 4 s)) (digits_value (take 2 (drop 5 s))) \<and>
      digits_value (take 2 (drop 11 s)) \<le> 23 \<and>
      digits_value (take 2 (drop 14 s)) \<le> 59 \<and>
      digits_value (take 2 (drop 17 s)) \<le> 59)"

section \<open>The mapping of scores\<close>

text \<open>
  The specification's EmotionScores, a mapping from label strings to scores in the
  order of its keys, as the \<^verbatim>\<open>dict\<close> that \<^verbatim>\<open>analyze_emotion\<close> returns for it.
\<close>

definition emotion_scores :: "(string \<times> rat) list \<Rightarrow> pydict" where
  "emotion_scores sc = map (\<lambda>(l, s). (JStr l, JNum s)) sc"

section \<open>Scenarios\<close>

text \<open>
  The inputs at which the theorems below are exercised: the specification's concrete
  scenario (the classifier scores \<^verbatim>\<open>joy\<close> at 0.92 and \<^verbatim>\<open>neutral\<close> at 0.05), an
  environment in which the classifier answers a given body and the database works
  and returns rows of equal timestamp by ascending id, and an empty table.
\<close>

definition thrilled_reply :: json where
  "thrilled_reply =
     JArr [JArr [JObj [(''label'', JStr ''joy''), (''score'', JNum (92 / 100))],
                 JObj [(''label'', JStr ''neutral''), (''score'', JNum (5 / 100))]]]"

definition at_noon :: datetime where
  "at_noon =
     \<lparr>dt_year = 2024, dt_month = 3, dt_day = 9, dt_hour = 12, dt_minute = 0, dt_second = 0\<rparr>"

definition env_ok :: "json \<Rightarrow> env" where
  "env_ok reply =
     \<lparr>classifier = (\<lambda>payload. Decoded reply), connect_ok = True, db_fault = False,
      now = at_noon, convert_other = (\<lambda>t l s. None), tie_rank = col_id\<rparr>"

definition empty_db :: db where
  "empty_db = \<lparr>rows = [], auto_increment = 1\<rparr>"

definition text_body :: "string \<Rightarrow> json" where
  "text_body s = JObj [(''text'', JStr s)]"

text \<open>A table of thirty entries, all stored within the second of \<open>at_noon\<close>.\<close>

definition busy_db :: db where
  "busy_db =
     \<lparr>rows = map (\<lambda>i. \<lparr>col_id = i, col_entry_text = ''earlier'', col_primary_emotion = ''joy'',
                        col_primary_score = 92, col_timestamp = at_noon\<rparr>) [1..<31],
      auto_increment = 31\<rparr>"



text \<open>The table after two submissions within one second.\<close>

definition two_entries :: db where
  "two_entries =
     store (add_entry (env_ok thrilled_reply)
       (store (add_entry (env_ok thrilled_reply) empty_db (text_body ''first'')))
       (text_body ''second''))"

text \<open>The same environment with a database that fails while it executes a statement.\<close>

definition env_db_fault :: env where
  "env_db_fault = (env_ok thrilled_reply)\<lparr>db_fault := True\<rparr>"

section \<open>Evaluation rules\<close>

lemmas scenario_defs = env_ok_def empty_db_def text_body_def thrilled_reply_def at_noon_def

lemmas route_defs = add_entry_def method_get_def analyze_emotion_def subscript_str_def
  primary_def py_max_def dict_keys_def dict_get_def dict_subscript_def save_entry_def
  get_db_connection_def execute_insert_def to_mysql_def decimal_5_2_def round_half_away_def
  error_body_def success_body_def

lemma floor_rat_numeral:
  "\<lfloor>(numeral a :: rat) / numeral b\<rfloor> = numeral a div numeral b"
  using floor_divide_of_int_eq [of "numeral a" "numeral b", where ?'a = rat] by simp

section \<open>Which exceptions can leave a step\<close>

lemma py_gt_raises:
  "py_gt a b = Inl x \<Longrightarrow> x = TypeError"
  "py_gt_list as bs = Inl x \<Longrightarrow> x = TypeError"
  by (induction a b and as bs rule: py_gt_py_gt_list.induct)
     (auto split: option.splits json.splits list.splits if_splits)

lemma max_from_raises: "max_from f k v ks = Inl x \<Longrightarrow> x = TypeError"
  by (induction ks arbitrary: k v) (auto split: sum.splits if_splits dest: py_gt_raises)

lemma py_mul_raises: "py_mul v n = Inl x \<Longrightarrow> x = TypeError"
  by (cases v) auto

lemma primary_raises:
  assumes "primary m = Inl x" and "m \<noteq> []"
  shows "x \<noteq> ValueError"
  using assms
  by (auto simp: primary_def py_max_def dict_subscript_def dict_keys_def
           split: sum.splits list.splits option.splits
           dest: max_from_raises py_mul_raises)

lemma subscript_str_raises: "subscript_str item k = Inl x \<Longrightarrow> x \<noteq> ValueError"
  by (auto simp: subscript_str_def split: json.splits option.splits)

lemma dict_comprehension_raises: "dict_comprehension items d = Inl x \<Longrightarrow> x \<noteq> ValueError"
  by (induction items arbitrary: d)
     (auto split: sum.splits if_splits dest: subscript_str_raises)

lemma analyze_emotion_raises: "analyze_emotion e t = Inl x \<Longrightarrow> x \<noteq> ValueError"
  by (auto simp: analyze_emotion_def split: api_reply.splits json.splits list.splits sum.splits
           dest: dict_comprehension_raises)

lemma method_get_raises: "method_get data k = Inl x \<Longrightarrow> x = AttributeError"
  by (auto simp: method_get_def split: json.splits)

lemma save_entry_response:
  "\<exists>n b. response (save_entry e d t pe ps) = JsonResponse n b"
  by (auto simp: save_entry_def split: option.splits sum.splits)

section \<open>Validation of the submitted text\<close>

text \<open>
  Claim C4. A request whose \<^verbatim>\<open>text\<close> is absent, null or the empty string is answered
  with status 400 and the body \<^verbatim>\<open>{"error": "No text provided"}\<close>; the classifier is
  not called and the database is not touched (no effect is performed), so the store
  holds what it held.
\<close>

theorem add_entry_without_text:
  assumes "map_of fs ''text'' = None \<or> map_of fs ''text'' = Some JNull \<or>
           map_of fs ''text'' = Some (JStr [])"
  shows "add_entry e d (JObj fs) =
           \<lparr>response = JsonResponse 400 (error_body ''No text provided''),
            store = d, effects = []\<rparr>"
  using assms by (auto simp: add_entry_def method_get_def)

theorem add_entry_without_text_witness:
  "add_entry (env_ok thrilled_reply) empty_db (text_body []) =
     \<lparr>response = JsonResponse 400 (error_body ''No text provided''),
      store = empty_db, effects = []\<rparr> \<and>
   add_entry (env_ok thrilled_reply) empty_db (JObj []) =
     \<lparr>response = JsonResponse 400 (error_body ''No text provided''),
      store = empty_db, effects = []\<rparr>"
  using add_entry_without_text [of "[(''text'', JStr [])]" "env_ok thrilled_reply" empty_db]
    add_entry_without_text [of "[]" "env_ok thrilled_reply" empty_db]
  by (simp add: text_body_def)

text \<open>
  Claim C9. The text is validated by its truth value: a falsy value of the field
  (\<^verbatim>\<open>null\<close>, the empty string, 0, \<^verbatim>\<open>false\<close>, the empty array) is answered with the
  400 error of a missing text and nothing else happens, while a truthy one, the
  string of one blank among them, is never answered with that error: it is posted
  to the classifier and, once classified, saved.
\<close>

theorem text_validation_is_truthiness:
  "(method_get data ''text'' = Inr t \<and> \<not> truthy t \<longrightarrow>
      add_entry e d data =
        \<lparr>response = JsonResponse 400 (JObj [(''error'', JStr ''No text provided'')]),
         store = d, effects = []\<rparr>) \<and>
   (method_get data ''text'' = Inr t \<and> truthy t \<longrightarrow>
      response (add_entry e d data) \<noteq>
        JsonResponse 400 (JObj [(''error'', JStr ''No text provided'')]) \<and>
      (\<exists>fx. effects (add_entry e d data) = ClassifierPost t # fx)) \<and>
   (method_get data ''text'' = Inr t \<and> truthy t \<and> analyze_emotion e t = Inr (Some m) \<and>
    m \<noteq> [] \<and> primary m = Inr (pe, ps) \<longrightarrow>
      add_entry e d data = save_entry e d t pe ps) \<and>
   \<not> truthy JNull \<and> \<not> truthy (JStr []) \<and> \<not> truthy (JNum 0) \<and> \<not> truthy (JBool False) \<and>
   \<not> truthy (JArr []) \<and> truthy (JStr '' '')"
  by (auto simp: add_entry_def save_entry_def error_body_def
        split: sum.splits option.splits prod.splits)

theorem text_validation_is_truthiness_witness:
  "add_entry (env_ok thrilled_reply) empty_db (JObj [(''text'', JNum 0)]) =
     \<lparr>response = JsonResponse 400 (JObj [(''error'', JStr ''No text provided'')]),
      store = empty_db, effects = []\<rparr> \<and>
   add_entry (env_ok thrilled_reply) empty_db (text_body '' '') =
     \<lparr>response = JsonResponse 200 (success_body (JStr ''joy'') (JNum 92)),
      store = \<lparr>rows = [\<lparr>col_id = 1, col_entry_text = '' '', col_primary_emotion = ''joy'',
                        col_primary_score = 92, col_timestamp = at_noon\<rparr>],
               auto_increment = 2\<rparr>,
      effects = [ClassifierPost (JStr '' ''), DbConnect,
                 DbInsert (JStr '' '') (JStr ''joy'') (JNum 92)]\<rparr>"
proof -
  have 1: "method_get (JObj [(''text'', JNum 0)]) ''text'' = Inr (JNum 0)"
    by (simp add: method_get_def)
  have 2: "method_get (text_body '' '') ''text'' = Inr (JStr '' '')"
    by (simp add: method_get_def text_body_def)
  have 3: "analyze_emotion (env_ok thrilled_reply) (JStr '' '') =
     Inr (Some [(JStr ''joy'', JNum (92 / 100)), (JStr ''neutral'', JNum (5 / 100))])"
    by (simp add: analyze_emotion_def env_ok_def thrilled_reply_def subscript_str_def)
  have 4: "primary [(JStr ''joy'', JNum (92 / 100)), (JStr ''neutral'', JNum (5 / 100))] =
     Inr (JStr ''joy'', JNum 92)"
    by (simp add: primary_def py_max_def dict_keys_def dict_get_def dict_subscript_def)
  have 5: "save_entry (env_ok thrilled_reply) empty_db (JStr '' '') (JStr ''joy'') (JNum 92) =
     \<lparr>response = JsonResponse 200 (success_body (JStr ''joy'') (JNum 92)),
      store = \<lparr>rows = [\<lparr>col_id = 1, col_entry_text = '' '', col_primary_emotion = ''joy'',
                        col_primary_score = 92, col_timestamp = at_noon\<rparr>],
               auto_increment = 2\<rparr>,
      effects = [ClassifierPost (JStr '' ''), DbConnect,
                 DbInsert (JStr '' '') (JStr ''joy'') (JNum 92)]\<rparr>"
    by (simp add: save_entry_def get_db_connection_def execute_insert_def to_mysql_def
          decimal_5_2_def round_half_away_def floor_rat_numeral env_ok_def empty_db_def)
  show ?thesis
    using text_validation_is_truthiness [of "JObj [(''text'', JNum 0)]" "JNum 0"
        "env_ok thrilled_reply" empty_db "[]" JNull JNull]
      text_validation_is_truthiness [of "text_body '' ''" "JStr '' ''"
        "env_ok thrilled_reply" empty_db
        "[(JStr ''joy'', JNum (92 / 100)), (JStr ''neutral'', JNum (5 / 100))]"
        "JStr ''joy''" "JNum 92"]
      1 2 3 4 5
    by simp
qed

section \<open>Malformed classifier responses\<close>

text \<open>
  Claim C3, at the response \<^verbatim>\<open>[[{"score": 0.9}]]\<close>, a list of a list whose item has no
  label. The comprehension of \<^verbatim>\<open>analyze_emotion\<close> raises \<^verbatim>\<open>KeyError\<close>, which
  neither \<^verbatim>\<open>except\<close> clause catches: the request ends in the framework's error page
  and not in the body \<^verbatim>\<open>{"error": "Failed to analyze emotion"}\<close>. Nothing is stored.
\<close>

theorem malformed_item_is_unhandled:
  "add_entry (env_ok (JArr [JArr [JObj [(''score'', JNum (9 / 10))]]])) empty_db
     (text_body ''hello'') =
     \<lparr>response = InternalServerError KeyError, store = empty_db,
      effects = [ClassifierPost (JStr ''hello'')]\<rparr>"
  by (simp add: scenario_defs route_defs)

text \<open>
  The other departures from the expected shape end as the handler intends: a failed
  transport, a body that is not JSON, and a decoded body that is not a list whose
  first item is a list are answered with status 500 and the body
  \<^verbatim>\<open>{"error": "Failed to analyze emotion"}\<close>, and nothing is stored.
\<close>

lemma unexpected_shape_is_a_failure:
  assumes "method_get data ''text'' = Inr t" and "truthy t"
    and "classifier e t = RequestException \<or> classifier e t = JSONDecodeError \<or>
         (\<exists>r. classifier e t = Decoded r \<and> (\<forall>items rest. r \<noteq> JArr (JArr items # rest)))"
  shows "add_entry e d data =
           \<lparr>response = JsonResponse 500 (error_body ''Failed to analyze emotion''),
            store = d, effects = [ClassifierPost t]\<rparr>"
proof -
  have "analyze_emotion e t = Inr None"
    using assms(3)
    by (auto simp: analyze_emotion_def split: api_reply.splits json.splits list.splits)
  with assms(1,2) show ?thesis by (simp add: add_entry_def)
qed

text \<open>
  Claim C8. \<^verbatim>\<open>max\<close> is never applied to an empty mapping: a response that parses to
  the empty mapping, as \<^verbatim>\<open>[[]]\<close> does, is answered as a failed classification before
  the primary emotion is computed, and no request ends in the \<^verbatim>\<open>ValueError\<close> that
  \<^verbatim>\<open>max\<close> raises on an empty iterable.
\<close>

theorem max_never_on_empty_mapping:
  "(method_get data ''text'' = Inr t \<and> truthy t \<and> analyze_emotion e t = Inr (Some []) \<longrightarrow>
      add_entry e d data =
        \<lparr>response = JsonResponse 500 (error_body ''Failed to analyze emotion''),
         store = d, effects = [ClassifierPost t]\<rparr>) \<and>
   (classifier e t = Decoded (JArr [JArr []]) \<longrightarrow> analyze_emotion e t = Inr (Some [])) \<and>
   response (add_entry e d data) \<noteq> InternalServerError ValueError"
proof (intro conjI impI)
  show "response (add_entry e d data) \<noteq> InternalServerError ValueError"
  proof (cases "method_get data ''text''")
    case (Inl x)
    then show ?thesis by (auto simp: add_entry_def dest: method_get_raises)
  next
    case (Inr t')
    show ?thesis
    proof (cases "analyze_emotion e t'")
      case (Inl x)
      with Inr show ?thesis by (auto simp: add_entry_def dest: analyze_emotion_raises)
    next
      case r: (Inr m)
      show ?thesis
      proof (cases m)
        case None
        with Inr r show ?thesis by (simp add: add_entry_def)
      next
        case (Some scores)
        show ?thesis
        proof (cases "primary scores")
          case (Inl x)
          with Inr r Some show ?thesis
            by (auto simp: add_entry_def dest: primary_raises)
        next
          case p: (Inr pr)
          obtain pe ps where "pr = (pe, ps)" by (cases pr)
          with Inr r Some p save_entry_response [of e d t' pe ps] show ?thesis
            by (auto simp: add_entry_def)
        qed
      qed
    qed
  qed
qed (auto simp: add_entry_def analyze_emotion_def)

theorem max_never_on_empty_mapping_witness:
  "method_get (text_body ''hello'') ''text'' = Inr (JStr ''hello'') \<and> truthy (JStr ''hello'') \<and>
   classifier (env_ok (JArr [JArr []])) (JStr ''hello'') = Decoded (JArr [JArr []]) \<and>
   analyze_emotion (env_ok (JArr [JArr []])) (JStr ''hello'') = Inr (Some []) \<and>
   add_entry (env_ok (JArr [JArr []])) empty_db (text_body ''hello'') =
     \<lparr>response = JsonResponse 500 (error_body ''Failed to analyze emotion''),
      store = empty_db, effects = [ClassifierPost (JStr ''hello'')]\<rparr> \<and>
   response (add_entry (env_ok (JArr [JArr []])) empty_db (text_body ''hello'')) \<noteq>
     InternalServerError ValueError"
  using max_never_on_empty_mapping [of "text_body ''hello''" "JStr ''hello''" "env_ok (JArr [JArr []])" empty_db]
  by (simp add: method_get_def text_body_def env_ok_def)

section \<open>Saving the entry\<close>

text \<open>
  Claim C7. When every step succeeds, \<^verbatim>\<open>POST /add_entry\<close> answers with status 200
  and the body \<^verbatim>\<open>{"message": "Entry saved successfully", "emotion": ..., "score": ...}\<close>
  holding the primary emotion and score. In particular, when the classifier answers
  \<^verbatim>\<open>[[{"label":"joy","score":0.92},{"label":"neutral","score":0.05}]]\<close> to the text
  ``I am thrilled about this!'' and the database works, the answer is 200 with emotion
  \<^verbatim>\<open>joy\<close> and score 92, and the row stored holds \<^verbatim>\<open>joy\<close> and 92.
\<close>

theorem add_entry_success_response:
  "(method_get data ''text'' = Inr t \<and> truthy t \<and> analyze_emotion e t = Inr (Some m) \<and>
    m \<noteq> [] \<and> primary m = Inr (pe, ps) \<and> connect_ok e \<and>
    execute_insert e d t pe ps = Inr d' \<longrightarrow>
      add_entry e d data =
        \<lparr>response = JsonResponse 200
           (JObj [(''message'', JStr ''Entry saved successfully''),
                  (''emotion'', pe), (''score'', ps)]),
         store = d', effects = [ClassifierPost t, DbConnect, DbInsert t pe ps]\<rparr>) \<and>
   (classifier e (JStr ''I am thrilled about this!'') = Decoded thrilled_reply \<and>
    connect_ok e \<and> \<not> db_fault e \<longrightarrow>
      response (add_entry e d (text_body ''I am thrilled about this!'')) =
        JsonResponse 200
          (JObj [(''message'', JStr ''Entry saved successfully''),
                 (''emotion'', JStr ''joy''), (''score'', JNum 92)]) \<and>
      rows (store (add_entry e d (text_body ''I am thrilled about this!''))) =
        rows d @
          [\<lparr>col_id = auto_increment d, col_entry_text = ''I am thrilled about this!'',
            col_primary_emotion = ''joy'', col_primary_score = 92,
            col_timestamp = now e\<rparr>])"
proof (intro conjI impI)
  assume a: "classifier e (JStr ''I am thrilled about this!'') = Decoded thrilled_reply \<and>
    connect_ok e \<and> \<not> db_fault e"
  let ?out = "add_entry e d (text_body ''I am thrilled about this!'')"
  have out: "?out = save_entry e d (JStr ''I am thrilled about this!'') (JStr ''joy'') (JNum 92)"
    using a
    by (simp add: add_entry_def method_get_def text_body_def analyze_emotion_def
          thrilled_reply_def subscript_str_def primary_def py_max_def dict_keys_def
          dict_get_def dict_subscript_def)
  have ins: "execute_insert e d (JStr ''I am thrilled about this!'') (JStr ''joy'') (JNum 92) =
      Inr (d\<lparr>rows := rows d @
          [\<lparr>col_id = auto_increment d, col_entry_text = ''I am thrilled about this!'',
            col_primary_emotion = ''joy'', col_primary_score = 92,
            col_timestamp = now e\<rparr>], auto_increment := Suc (auto_increment d)\<rparr>)"
    using a by (simp add: execute_insert_def to_mysql_def decimal_5_2_def round_half_away_def floor_rat_numeral)
  show "response ?out =
        JsonResponse 200
          (JObj [(''message'', JStr ''Entry saved successfully''),
                 (''emotion'', JStr ''joy''), (''score'', JNum 92)])"
    using a by (simp add: out save_entry_def get_db_connection_def ins success_body_def)
  show "rows (store ?out) =
        rows d @
          [\<lparr>col_id = auto_increment d, col_entry_text = ''I am thrilled about this!'',
            col_primary_emotion = ''joy'', col_primary_score = 92,
            col_timestamp = now e\<rparr>]"
    using a by (simp add: out save_entry_def get_db_connection_def ins)
qed (simp add: add_entry_def save_entry_def get_db_connection_def success_body_def)

theorem add_entry_success_response_witness:
  "response (add_entry (env_ok thrilled_reply) empty_db (text_body ''I am thrilled about this!'')) =
     JsonResponse 200
       (JObj [(''message'', JStr ''Entry saved successfully''),
              (''emotion'', JStr ''joy''), (''score'', JNum 92)]) \<and>
   rows (store (add_entry (env_ok thrilled_reply) empty_db
     (text_body ''I am thrilled about this!''))) =
     [\<lparr>col_id = 1, col_entry_text = ''I am thrilled about this!'',
       col_primary_emotion = ''joy'', col_primary_score = 92, col_timestamp = at_noon\<rparr>]"
  using add_entry_success_response [of "text_body ''I am thrilled about this!''"
      "JStr ''I am thrilled about this!''" "env_ok thrilled_reply" "[]" JNull JNull empty_db empty_db]
  by (simp add: env_ok_def empty_db_def)

text \<open>
  Claim C5. When the insert fails after the classification has succeeded, the answer
  is status 500 with the body \<^verbatim>\<open>{"error": "Failed to save entry to database"}\<close> and
  nothing of the classification; the store is what it was, so the recent listing
  shows what it showed before the submission.
\<close>

theorem failed_insert_leaves_no_record:
  assumes "method_get data ''text'' = Inr t" and "truthy t"
    and "analyze_emotion e t = Inr (Some m)" and "m \<noteq> []" and "primary m = Inr (pe, ps)"
    and "connect_ok e" and "execute_insert e d t pe ps = Inl err"
  shows "response (add_entry e d data) =
           JsonResponse 500 (JObj [(''error'', JStr ''Failed to save entry to database'')]) \<and>
         store (add_entry e d data) = d \<and>
         response (get_moods e' (store (add_entry e d data))) = response (get_moods e' d)"
  using assms
  by (simp add: add_entry_def save_entry_def get_db_connection_def error_body_def)

theorem failed_insert_leaves_no_record_witness:
  "method_get (text_body ''hello'') ''text'' = Inr (JStr ''hello'') \<and> truthy (JStr ''hello'') \<and>
   analyze_emotion env_db_fault (JStr ''hello'') =
     Inr (Some [(JStr ''joy'', JNum (92 / 100)), (JStr ''neutral'', JNum (5 / 100))]) \<and>
   primary [(JStr ''joy'', JNum (92 / 100)), (JStr ''neutral'', JNum (5 / 100))] =
     Inr (JStr ''joy'', JNum 92) \<and>
   connect_ok env_db_fault \<and>
   execute_insert env_db_fault empty_db (JStr ''hello'') (JStr ''joy'') (JNum 92) =
     Inl OperationalError \<and>
   response (add_entry env_db_fault empty_db (text_body ''hello'')) =
     JsonResponse 500 (JObj [(''error'', JStr ''Failed to save entry to database'')]) \<and>
   store (add_entry env_db_fault empty_db (text_body ''hello'')) = empty_db \<and>
   response (get_moods (env_ok thrilled_reply)
     (store (add_entry env_db_fault empty_db (text_body ''hello'')))) = JsonEntries 200 []"
proof -
  have 1: "method_get (text_body ''hello'') ''text'' = Inr (JStr ''hello'')"
    by (simp add: method_get_def text_body_def)
  have 2: "analyze_emotion env_db_fault (JStr ''hello'') =
     Inr (Some [(JStr ''joy'', JNum (92 / 100)), (JStr ''neutral'', JNum (5 / 100))])"
    by (simp add: analyze_emotion_def env_db_fault_def env_ok_def thrilled_reply_def
          subscript_str_def)
  have 3: "primary [(JStr ''joy'', JNum (92 / 100)), (JStr ''neutral'', JNum (5 / 100))] =
     Inr (JStr ''joy'', JNum 92)"
    by (simp add: primary_def py_max_def dict_keys_def dict_get_def dict_subscript_def)
  have 4: "connect_ok env_db_fault" by (simp add: env_db_fault_def env_ok_def)
  have 5: "execute_insert env_db_fault empty_db (JStr ''hello'') (JStr ''joy'') (JNum 92) =
     Inl OperationalError"
    by (simp add: execute_insert_def env_db_fault_def env_ok_def)
  have 6: "response (get_moods (env_ok thrilled_reply) empty_db) = JsonEntries 200 []"
    by (simp add: get_moods_def get_db_connection_def env_ok_def empty_db_def list_recent_def
          order_by_timestamp_desc_def)
  show ?thesis
    using failed_insert_leaves_no_record [OF 1 _ 2 _ 3 4 5, of "env_ok thrilled_reply"] 1 2 3 4 5 6
    by simp
qed

section \<open>The recent listing\<close>

lemma precedes_total: "\<not> precedes e x y \<Longrightarrow> precedes e y x"
  by (auto simp: precedes_def)

lemma precedes_trans: "precedes e x y \<Longrightarrow> precedes e y z \<Longrightarrow> precedes e x z"
  by (auto simp: precedes_def)

lemma precedes_newer:
  "precedes e a b \<Longrightarrow> dt_key (col_timestamp b) \<le> dt_key (col_timestamp a)"
  by (auto simp: precedes_def)

lemma mset_insert_row: "mset (insert_row e x xs) = add_mset x (mset xs)"
  by (induction xs) auto

lemma set_insert_row: "set (insert_row e x xs) = insert x (set xs)"
  by (induction xs) auto

lemma sorted_insert_row:
  "sorted_wrt (precedes e) xs \<Longrightarrow> sorted_wrt (precedes e) (insert_row e x xs)"
proof (induction xs)
  case Nil
  then show ?case by simp
next
  case (Cons y ys)
  show ?case
  proof (cases "precedes e x y")
    case True
    with Cons.prems show ?thesis by (auto intro: precedes_trans)
  next
    case False
    with Cons show ?thesis by (auto simp: set_insert_row dest: precedes_total)
  qed
qed

lemma mset_order_by: "mset (order_by_timestamp_desc e rs) = mset rs"
  by (induction rs) (auto simp: order_by_timestamp_desc_def mset_insert_row)

lemma sorted_order_by: "sorted_wrt (precedes e) (order_by_timestamp_desc e rs)"
  by (induction rs) (auto simp: order_by_timestamp_desc_def sorted_insert_row)

lemma newest_first_order_by:
  "sorted_wrt (\<lambda>a b. dt_key (col_timestamp b) \<le> dt_key (col_timestamp a))
     (order_by_timestamp_desc e rs)"
  using sorted_order_by [of e rs] by (rule sorted_wrt_mono_rel [rotated]) (rule precedes_newer)

lemma length_order_by: "length (order_by_timestamp_desc e rs) = length rs"
  using mset_order_by [of e rs] by (metis size_mset)

lemma two_entries_rows:
  "rows two_entries =
     [\<lparr>col_id = 1, col_entry_text = ''first'', col_primary_emotion = ''joy'',
       col_primary_score = 92, col_timestamp = at_noon\<rparr>,
      \<lparr>col_id = 2, col_entry_text = ''second'', col_primary_emotion = ''joy'',
       col_primary_score = 92, col_timestamp = at_noon\<rparr>]"
  by (simp add: two_entries_def scenario_defs route_defs floor_rat_numeral)

text \<open>
  Claim C2, as amended. For every limit \<open>n\<close> (30 for \<^verbatim>\<open>GET /moods\<close>) the listing
  holds \<open>n\<close> rows of the table, or all of them when there are fewer, newest first,
  and no row left out is newer than a row listed; \<^verbatim>\<open>GET /moods\<close> returns that listing
  and leaves the store as it was. The order of rows of equal timestamp is the
  server's: the query has no second sort key.
\<close>

theorem list_recent_newest_first:
  "length (list_recent e n rs) = min n (length rs) \<and>
   sorted_wrt (\<lambda>a b. dt_key (col_timestamp b) \<le> dt_key (col_timestamp a))
     (list_recent e n rs) \<and>
   mset (list_recent e n rs) \<subseteq># mset rs \<and>
   (\<forall>x \<in># mset rs - mset (list_recent e n rs). \<forall>y \<in> set (list_recent e n rs).
      dt_key (col_timestamp x) \<le> dt_key (col_timestamp y)) \<and>
   store (get_moods e d) = d \<and>
   (connect_ok e \<and> \<not> db_fault e \<longrightarrow>
      response (get_moods e d) =
        JsonEntries 200 (map format_entry (list_recent e 30 (rows d))))"
proof -
  let ?p = "order_by_timestamp_desc e rs"
  have split: "mset rs = mset (take n ?p) + mset (drop n ?p)"
    by (metis append_take_drop_id mset_append mset_order_by)
  have sorted: "sorted_wrt (\<lambda>a b. dt_key (col_timestamp b) \<le> dt_key (col_timestamp a))
        (take n ?p) \<and>
      (\<forall>y \<in> set (take n ?p). \<forall>x \<in> set (drop n ?p).
         dt_key (col_timestamp x) \<le> dt_key (col_timestamp y))"
    using newest_first_order_by [of e rs]
      sorted_wrt_append [of "\<lambda>a b. dt_key (col_timestamp b) \<le> dt_key (col_timestamp a)"
        "take n ?p" "drop n ?p"]
    by simp
  have 1: "length (list_recent e n rs) = min n (length rs)"
    by (simp add: list_recent_def length_order_by min.commute)
  have 2: "sorted_wrt (\<lambda>a b. dt_key (col_timestamp b) \<le> dt_key (col_timestamp a))
      (list_recent e n rs)"
    using sorted by (simp add: list_recent_def)
  have 3: "mset (list_recent e n rs) \<subseteq># mset rs"
    by (simp add: list_recent_def split)
  have 4: "\<forall>x \<in># mset rs - mset (list_recent e n rs). \<forall>y \<in> set (list_recent e n rs).
      dt_key (col_timestamp x) \<le> dt_key (col_timestamp y)"
    using sorted by (auto simp: list_recent_def split)
  have 5: "store (get_moods e d) = d"
    by (simp add: get_moods_def split: option.splits)
  have 6: "connect_ok e \<and> \<not> db_fault e \<longrightarrow>
      response (get_moods e d) =
        JsonEntries 200 (map format_entry (list_recent e 30 (rows d)))"
    by (simp add: get_moods_def get_db_connection_def)
  from 1 2 3 4 5 6 show ?thesis by blast
qed

theorem list_recent_newest_first_witness:
  "connect_ok (env_ok thrilled_reply) \<and> \<not> db_fault (env_ok thrilled_reply) \<and>
   length (list_recent (env_ok thrilled_reply) 1 (rows two_entries)) = 1 \<and>
   store (get_moods (env_ok thrilled_reply) two_entries) = two_entries \<and>
   response (get_moods (env_ok thrilled_reply) two_entries) =
     JsonEntries 200 (map format_entry (list_recent (env_ok thrilled_reply) 30 (rows two_entries)))"
  using list_recent_newest_first [of "env_ok thrilled_reply" 1 "rows two_entries" two_entries]
  by (simp add: two_entries_rows env_ok_def)

text \<open>
  Claim C2 as stated fails: two submissions within one second carry one timestamp,
  and a server that returns equal keys by ascending id lists the older of them first.
\<close>

theorem equal_timestamps_oldest_first:
  "map col_entry_text (list_recent (env_ok thrilled_reply) 30 (rows two_entries)) =
     [''first'', ''second''] \<and>
   map col_id (list_recent (env_ok thrilled_reply) 30 (rows two_entries)) = [1, 2] \<and>
   map col_timestamp (list_recent (env_ok thrilled_reply) 30 (rows two_entries)) =
     [at_noon, at_noon] \<and>
   \<not> sorted_wrt (\<lambda>a b. col_timestamp a = col_timestamp b \<longrightarrow> col_id b < col_id a)
     (list_recent (env_ok thrilled_reply) 30 (rows two_entries))"
  by (simp add: two_entries_rows list_recent_def order_by_timestamp_desc_def precedes_def
        env_ok_def)

text \<open>
  Claim C10. With no stored entry, a connection and a query that succeeds,
  \<^verbatim>\<open>GET /moods\<close> answers with status 200 and the empty array.
\<close>

theorem get_moods_empty_store:
  assumes "rows d = []" and "connect_ok e" and "\<not> db_fault e"
  shows "response (get_moods e d) = JsonEntries 200 []"
  using assms
  by (simp add: get_moods_def get_db_connection_def list_recent_def order_by_timestamp_desc_def)

theorem get_moods_empty_store_witness:
  "rows empty_db = [] \<and> connect_ok (env_ok thrilled_reply) \<and>
   \<not> db_fault (env_ok thrilled_reply) \<and>
   response (get_moods (env_ok thrilled_reply) empty_db) = JsonEntries 200 []"
  using get_moods_empty_store [of empty_db "env_ok thrilled_reply"]
  by (simp add: env_ok_def empty_db_def)

section \<open>Rendering a timestamp\<close>

lemma digit_cases:
  assumes "k < 10"
  shows "k = 0 \<or> k = 1 \<or> k = 2 \<or> k = 3 \<or> k = 4 \<or> k = 5 \<or> k = 6 \<or> k = 7 \<or> k = 8 \<or> k = (9::nat)"
  using assms by arith

lemma is_digit_digit: "k < 10 \<Longrightarrow> is_digit (digit k)"
  using digit_cases [of k] by (auto simp: is_digit_def digit_def)

lemma digit_value_digit: "k < 10 \<Longrightarrow> digit_value (digit k) = k"
  using digit_cases [of k] by (auto simp: digit_value_def digit_def)

lemma digit_0: "digit 0 = CHR ''0''"
  by (simp add: digit_def)

lemma replicate_small:
  "replicate 3 c = [c, c, c]" "replicate 2 c = [c, c]" "replicate 1 c = [c]"
  by (simp_all add: numeral_eq_Suc)

lemma nat_digits_small: "n < 10 \<Longrightarrow> nat_digits n = [digit n]"
  by simp

lemma nat_digits_step: "10 \<le> n \<Longrightarrow> nat_digits n = nat_digits (n div 10) @ [digit (n mod 10)]"
  by simp

declare nat_digits.simps [simp del]

lemma zfill_2:
  assumes "n < 100"
  shows "zfill 2 (nat_digits n) = [digit (n div 10), digit (n mod 10)]"
proof (cases "n < 10")
  case True
  then show ?thesis by (simp add: nat_digits_small zfill_def digit_0 replicate_small)
next
  case False
  with assms have "n div 10 < 10" by simp
  with False show ?thesis by (simp add: nat_digits_step nat_digits_small zfill_def replicate_small)
qed

lemma zfill_4:
  assumes "n < 10000"
  shows "zfill 4 (nat_digits n) =
    [digit (n div 1000), digit (n div 100 mod 10), digit (n div 10 mod 10), digit (n mod 10)]"
proof -
  consider "n < 10" | "10 \<le> n" "n < 100" | "100 \<le> n" "n < 1000" | "1000 \<le> n"
    by linarith
  then show ?thesis
  proof cases
    case 1
    then show ?thesis by (simp add: nat_digits_small zfill_def digit_0 replicate_small)
  next
    case 2
    then have "n div 10 < 10" by simp
    with 2 show ?thesis
      by (simp add: nat_digits_step nat_digits_small zfill_def digit_0 replicate_small)
  next
    case 3
    then have a: "10 \<le> n" "10 \<le> n div 10" "n div 10 div 10 < 10" by simp_all
    have b: "n div 10 div 10 = n div 100" by (simp add: div_mult2_eq [symmetric])
    from 3 have c: "n div 100 mod 10 = n div 100" "n div 1000 = 0" by simp_all
    show ?thesis
      using a by (simp add: nat_digits_step nat_digits_small zfill_def digit_0 replicate_small b c)
  next
    case 4
    with assms have a: "10 \<le> n" "10 \<le> n div 10" "10 \<le> n div 10 div 10"
      "n div 10 div 10 div 10 < 10" by simp_all
    have b: "n div 10 div 10 = n div 100" "n div 100 div 10 = n div 1000"
      by (simp_all add: div_mult2_eq [symmetric])
    show ?thesis
      using a by (simp add: nat_digits_step nat_digits_small zfill_def replicate_small b)
  qed
qed

lemma digits_value_2:
  "a < 10 \<Longrightarrow> b < 10 \<Longrightarrow> digits_value [digit a, digit b] = 10 * a + b"
  by (simp add: digits_value_def digit_value_digit)

lemma digits_value_4:
  "a < 10 \<Longrightarrow> b < 10 \<Longrightarrow> c < 10 \<Longrightarrow> d < 10 \<Longrightarrow>
   digits_value [digit a, digit b, digit c, digit d] = 1000 * a + 100 * b + 10 * c + d"
  by (simp add: digits_value_def digit_value_digit)

lemma isoformat_chars:
  assumes "valid_datetime t"
  shows "isoformat t =
    [digit (dt_year t div 1000), digit (dt_year t div 100 mod 10),
     digit (dt_year t div 10 mod 10), digit (dt_year t mod 10), CHR ''-'',
     digit (dt_month t div 10), digit (dt_month t mod 10), CHR ''-'',
     digit (dt_day t div 10), digit (dt_day t mod 10), CHR ''T'',
     digit (dt_hour t div 10), digit (dt_hour t mod 10), CHR '':'',
     digit (dt_minute t div 10), digit (dt_minute t mod 10), CHR '':'',
     digit (dt_second t div 10), digit (dt_second t mod 10)]"
proof -
  have "dt_day t \<le> 31"
    using assms by (auto simp: valid_datetime_def days_in_month_def split: if_splits)
  with assms have "dt_year t < 10000" "dt_month t < 100" "dt_day t < 100" "dt_hour t < 100"
    "dt_minute t < 100" "dt_second t < 100"
    by (auto simp: valid_datetime_def)
  then show ?thesis by (simp add: isoformat_def zfill_2 zfill_4)
qed




lemma decimal_places_4:
  "1000 * (n div 1000) + 100 * (n div 100 mod 10) + 10 * (n div 10 mod 10) + n mod 10 = (n::nat)"
proof -
  have a: "10 * (n div 10) + n mod 10 = n"
    by (rule mult_div_mod_eq)
  have b: "10 * (n div 100) + n div 10 mod 10 = n div 10"
    using mult_div_mod_eq [of 10 "n div 10"] by (simp add: div_mult2_eq [symmetric])
  have c: "10 * (n div 1000) + n div 100 mod 10 = n div 100"
    using mult_div_mod_eq [of 10 "n div 100"] by (simp add: div_mult2_eq [symmetric])
  from a b c show ?thesis by linarith
qed

lemma digits_value_zfill_2:
  assumes "n < 100"
  shows "digits_value [digit (n div 10), digit (n mod 10)] = n"
proof -
  from assms have "n div 10 < 10" by simp
  then have "digits_value [digit (n div 10), digit (n mod 10)] = 10 * (n div 10) + n mod 10"
    by (intro digits_value_2) simp_all
  also have "\<dots> = n" by (rule mult_div_mod_eq)
  finally show ?thesis .
qed

lemma digits_value_zfill_4:
  assumes "n < 10000"
  shows "digits_value [digit (n div 1000), digit (n div 100 mod 10),
      digit (n div 10 mod 10), digit (n mod 10)] = n"
proof -
  from assms have "n < 10 * 1000" by simp
  then have "n div 1000 < 10" by (rule less_mult_imp_div_less)
  then have "digits_value [digit (n div 1000), digit (n div 100 mod 10),
      digit (n div 10 mod 10), digit (n mod 10)] =
      1000 * (n div 1000) + 100 * (n div 100 mod 10) + 10 * (n div 10 mod 10) + n mod 10"
    by (intro digits_value_4) simp_all
  also have "\<dots> = n" by (rule decimal_places_4)
  finally show ?thesis .
qed


lemma isoformat_is_iso8601:
  assumes "valid_datetime t"
  shows "iso8601_datetime (isoformat t)"
proof -
  have day: "dt_day t \<le> 31"
    using assms by (auto simp: valid_datetime_def days_in_month_def split: if_splits)
  with assms have small: "dt_year t < 10000" "dt_month t < 100" "dt_day t < 100"
    "dt_hour t < 100" "dt_minute t < 100" "dt_second t < 100"
    by (auto simp: valid_datetime_def)
  have tens: "dt_year t div 1000 < 10" "dt_month t div 10 < 10" "dt_day t div 10 < 10"
    "dt_hour t div 10 < 10" "dt_minute t div 10 < 10" "dt_second t div 10 < 10"
    using small by simp_all
  let ?s = "isoformat t"
  have len: "length ?s = 19" and seps: "?s ! 4 = CHR ''-''" "?s ! 7 = CHR ''-''"
    "?s ! 10 = CHR ''T''" "?s ! 13 = CHR '':''" "?s ! 16 = CHR '':''"
    by (simp_all add: isoformat_chars [OF assms])
  have parts: "take 4 ?s = [digit (dt_year t div 1000), digit (dt_year t div 100 mod 10),
      digit (dt_year t div 10 mod 10), digit (dt_year t mod 10)]"
    "take 2 (drop 5 ?s) = [digit (dt_month t div 10), digit (dt_month t mod 10)]"
    "take 2 (drop 8 ?s) = [digit (dt_day t div 10), digit (dt_day t mod 10)]"
    "take 2 (drop 11 ?s) = [digit (dt_hour t div 10), digit (dt_hour t mod 10)]"
    "take 2 (drop 14 ?s) = [digit (dt_minute t div 10), digit (dt_minute t mod 10)]"
    "take 2 (drop 17 ?s) = [digit (dt_second t div 10), digit (dt_second t mod 10)]"
    by (simp_all add: isoformat_chars [OF assms])
  have digits: "list_all is_digit (take 4 ?s)" "list_all is_digit (take 2 (drop 5 ?s))"
    "list_all is_digit (take 2 (drop 8 ?s))" "list_all is_digit (take 2 (drop 11 ?s))"
    "list_all is_digit (take 2 (drop 14 ?s))" "list_all is_digit (take 2 (drop 17 ?s))"
    unfolding parts using tens by (simp_all add: is_digit_digit)
  have vals: "digits_value (take 4 ?s) = dt_year t"
    "digits_value (take 2 (drop 5 ?s)) = dt_month t"
    "digits_value (take 2 (drop 8 ?s)) = dt_day t"
    "digits_value (take 2 (drop 11 ?s)) = dt_hour t"
    "digits_value (take 2 (drop 14 ?s)) = dt_minute t"
    "digits_value (take 2 (drop 17 ?s)) = dt_second t"
    unfolding parts using small
    by (simp_all only: digits_value_zfill_2 digits_value_zfill_4)
  have ranges: "1 \<le> dt_month t" "dt_month t \<le> 12" "1 \<le> dt_day t"
    "dt_day t \<le> days_in_month (dt_year t) (dt_month t)"
    "dt_hour t \<le> 23" "dt_minute t \<le> 59" "dt_second t \<le> 59"
    using assms by (simp_all add: valid_datetime_def)
  show ?thesis
    by (simp only: iso8601_datetime_def vals len seps digits ranges simp_thms)
qed

section \<open>Submitting, then listing\<close>

lemma round_half_away_close: "\<bar>rat_of_int (round_half_away x) - x\<bar> \<le> 1 / 2"
proof (cases "0 \<le> x")
  case True
  then have eq: "round_half_away x = \<lfloor>x + 1 / 2\<rfloor>"
    by (simp add: round_half_away_def)
  have "rat_of_int \<lfloor>x + 1 / 2\<rfloor> \<le> x + 1 / 2" "x + 1 / 2 < rat_of_int \<lfloor>x + 1 / 2\<rfloor> + 1"
    by linarith+
  then show ?thesis unfolding eq by linarith
next
  case False
  then have eq: "round_half_away x = - \<lfloor>- x + 1 / 2\<rfloor>"
    by (simp add: round_half_away_def)
  have "rat_of_int \<lfloor>- x + 1 / 2\<rfloor> \<le> - x + 1 / 2"
    "- x + 1 / 2 < rat_of_int \<lfloor>- x + 1 / 2\<rfloor> + 1"
    by linarith+
  then show ?thesis unfolding eq of_int_minus by linarith
qed

lemma decimal_5_2_close:
  assumes "decimal_5_2 x = Some y"
  shows "\<bar>y - x\<bar> \<le> 1 / 200"
proof -
  from assms have y: "y = rat_of_int (round_half_away (x * 100)) / 100"
    by (simp add: decimal_5_2_def Let_def split: if_splits)
  have "\<bar>rat_of_int (round_half_away (x * 100)) - x * 100\<bar> \<le> 1 / 2"
    by (rule round_half_away_close)
  then show ?thesis unfolding y by (simp add: abs_le_iff field_simps)
qed

lemma order_by_sorted:
  "sorted_wrt (precedes e) xs \<Longrightarrow> order_by_timestamp_desc e xs = xs"
proof (induction xs)
  case Nil
  then show ?case by (simp add: order_by_timestamp_desc_def)
next
  case (Cons x xs)
  then have "order_by_timestamp_desc e (x # xs) = insert_row e x xs"
    by (simp add: order_by_timestamp_desc_def)
  with Cons.prems show ?case by (cases xs) simp_all
qed

lemma listed_when_few_newer:
  assumes "r \<in> set rs"
    and "length (filter (\<lambda>x. dt_key (col_timestamp r) \<le> dt_key (col_timestamp x)) rs) \<le> n"
  shows "r \<in> set (list_recent e n rs)"
proof -
  let ?P = "\<lambda>x. dt_key (col_timestamp r) \<le> dt_key (col_timestamp x)"
  let ?p = "order_by_timestamp_desc e rs"
  have "set ?p = set rs"
    using mset_order_by [of e rs] by (metis set_mset_mset)
  with assms(1) obtain xs ys where p: "?p = xs @ r # ys"
    by (metis split_list)
  have "size (filter_mset ?P (mset ?p)) = size (filter_mset ?P (mset rs))"
    by (simp add: mset_order_by)
  then have count: "length (filter ?P ?p) = length (filter ?P rs)"
    by (simp flip: mset_filter)
  have "sorted_wrt (\<lambda>a b. dt_key (col_timestamp b) \<le> dt_key (col_timestamp a)) (xs @ r # ys)"
    using newest_first_order_by [of e rs] by (simp add: p)
  then have "\<forall>x \<in> set xs. ?P x"
    by (simp add: sorted_wrt_append)
  then have "filter ?P xs = xs" by simp
  then have "length (filter ?P ?p) \<ge> length xs + 1"
    by (simp add: p)
  with count assms(2) have "length xs < n" by simp
  then have "r \<in> set (take n (xs @ r # ys))"
    by (cases "n - length xs") simp_all
  then show ?thesis by (simp add: list_recent_def p)
qed

lemma add_entry_200:
  assumes "response (add_entry e d data) = JsonResponse 200 b"
  shows "\<exists>t m pe ps d'. method_get data ''text'' = Inr t \<and> truthy t \<and>
     analyze_emotion e t = Inr (Some m) \<and> m \<noteq> [] \<and> primary m = Inr (pe, ps) \<and>
     execute_insert e d t pe ps = Inr d' \<and> b = success_body pe ps \<and>
     store (add_entry e d data) = d'"
  using assms
  by (auto simp: add_entry_def save_entry_def error_body_def
        split: sum.splits if_splits option.splits prod.splits)

lemma execute_insert_typed:
  assumes "execute_insert e d (JStr T) (JStr E) (JNum S) = Inr d'"
  shows "\<exists>dec. decimal_5_2 S = Some dec \<and>
     rows d' = rows d @
       [\<lparr>col_id = auto_increment d, col_entry_text = T, col_primary_emotion = E,
         col_primary_score = dec, col_timestamp = now e\<rparr>]"
  using assms
  by (auto simp: execute_insert_def to_mysql_def split: if_splits option.splits)

text \<open>
  Claim C6, as amended. A record that a submission with the text \<open>T\<close> stored, answered
  with the emotion \<open>E\<close> and the score \<open>S\<close>, is in the recent listing whenever fewer than
  30 of the records stored before it carry a timestamp at or after its own; there it
  has the text \<open>T\<close>, the emotion \<open>E\<close>, a score within 0.01 of \<open>S\<close>, and its timestamp
  (a calendar date and time) as an ISO 8601 string.
\<close>

theorem submit_then_recent:
  assumes body: "method_get data ''text'' = Inr (JStr T)"
    and ok: "response (add_entry e d data) = JsonResponse 200 (success_body (JStr E) (JNum S))"
    and clock: "valid_datetime (now e)"
    and few: "length (filter (\<lambda>x. dt_key (now e) \<le> dt_key (col_timestamp x)) (rows d)) < 30"
    and db: "connect_ok e'" "\<not> db_fault e'"
  shows "\<exists>r xs. rows (store (add_entry e d data)) = rows d @ [r] \<and>
     response (get_moods e' (store (add_entry e d data))) = JsonEntries 200 xs \<and>
     format_entry r \<in> set xs \<and>
     entry_text_field (format_entry r) = T \<and>
     primary_emotion_field (format_entry r) = E \<and>
     \<bar>primary_score_field (format_entry r) - S\<bar> < 1 / 100 \<and>
     iso8601_datetime (timestamp_field (format_entry r))"
proof -
  from add_entry_200 [OF ok] body obtain d' where
    ins: "execute_insert e d (JStr T) (JStr E) (JNum S) = Inr d'"
    and st: "store (add_entry e d data) = d'"
    by (auto simp: success_body_def)
  from execute_insert_typed [OF ins] obtain dec where dec: "decimal_5_2 S = Some dec"
    and rows: "rows d' = rows d @
       [\<lparr>col_id = auto_increment d, col_entry_text = T, col_primary_emotion = E,
         col_primary_score = dec, col_timestamp = now e\<rparr>]"
    by blast
  let ?r = "\<lparr>col_id = auto_increment d, col_entry_text = T, col_primary_emotion = E,
         col_primary_score = dec, col_timestamp = now e\<rparr>"
  let ?xs = "map format_entry (list_recent e' 30 (rows d'))"
  have listing: "response (get_moods e' d') = JsonEntries 200 ?xs"
    using db by (simp add: get_moods_def get_db_connection_def)
  have "length (filter (\<lambda>x. dt_key (col_timestamp ?r) \<le> dt_key (col_timestamp x)) (rows d')) \<le> 30"
    using few by (simp add: rows)
  then have "?r \<in> set (list_recent e' 30 (rows d'))"
    by (intro listed_when_few_newer) (simp add: rows)
  then have listed: "format_entry ?r \<in> set ?xs" by simp
  have close: "\<bar>dec - S\<bar> < 1 / 100"
    using decimal_5_2_close [OF dec] by simp
  have iso: "iso8601_datetime (isoformat (now e))"
    using clock by (rule isoformat_is_iso8601)
  show ?thesis
    using rows listing listed close iso unfolding st
    by (intro exI [of _ ?r] exI [of _ ?xs]) (simp add: format_entry_def)
qed

theorem submit_then_recent_witness:
  "method_get (text_body ''I am thrilled about this!'') ''text'' =
     Inr (JStr ''I am thrilled about this!'') \<and>
   response (add_entry (env_ok thrilled_reply) empty_db
     (text_body ''I am thrilled about this!'')) =
     JsonResponse 200 (success_body (JStr ''joy'') (JNum 92)) \<and>
   valid_datetime (now (env_ok thrilled_reply)) \<and>
   length (filter (\<lambda>x. dt_key (now (env_ok thrilled_reply)) \<le> dt_key (col_timestamp x))
     (rows empty_db)) < 30 \<and>
   connect_ok (env_ok thrilled_reply) \<and> \<not> db_fault (env_ok thrilled_reply) \<and>
   (\<exists>r xs. rows (store (add_entry (env_ok thrilled_reply) empty_db
        (text_body ''I am thrilled about this!''))) = rows empty_db @ [r] \<and>
      response (get_moods (env_ok thrilled_reply)
        (store (add_entry (env_ok thrilled_reply) empty_db
          (text_body ''I am thrilled about this!'')))) = JsonEntries 200 xs \<and>
      format_entry r \<in> set xs \<and>
      entry_text_field (format_entry r) = ''I am thrilled about this!'' \<and>
      primary_emotion_field (format_entry r) = ''joy'' \<and>
      \<bar>primary_score_field (format_entry r) - 92\<bar> < 1 / 100 \<and>
      iso8601_datetime (timestamp_field (format_entry r)))"
proof -
  have 1: "method_get (text_body ''I am thrilled about this!'') ''text'' =
     Inr (JStr ''I am thrilled about this!'')"
    by (simp add: method_get_def text_body_def)
  have 2: "response (add_entry (env_ok thrilled_reply) empty_db
     (text_body ''I am thrilled about this!'')) =
     JsonResponse 200 (success_body (JStr ''joy'') (JNum 92))"
    by (simp add: scenario_defs route_defs)
  have 3: "valid_datetime (now (env_ok thrilled_reply))"
    by (simp add: env_ok_def at_noon_def valid_datetime_def days_in_month_def)
  have 4: "length (filter (\<lambda>x. dt_key (now (env_ok thrilled_reply)) \<le> dt_key (col_timestamp x))
     (rows empty_db)) < 30"
    by (simp add: empty_db_def)
  have 5: "connect_ok (env_ok thrilled_reply)" "\<not> db_fault (env_ok thrilled_reply)"
    by (simp_all add: env_ok_def)
  show ?thesis
    using submit_then_recent [OF 1 2 3 4 5] 1 2 3 4 5 by simp
qed

lemma busy_db_sorted:
  "sorted_wrt (precedes (env_ok reply))
     (rows busy_db @
       [\<lparr>col_id = 31, col_entry_text = ''latest'', col_primary_emotion = ''joy'',
         col_primary_score = 92, col_timestamp = at_noon\<rparr>])"
proof -
  have "sorted_wrt (<) [1..<31::nat]" by simp
  then have "sorted_wrt (\<lambda>i j. precedes (env_ok reply)
       \<lparr>col_id = i, col_entry_text = ''earlier'', col_primary_emotion = ''joy'',
         col_primary_score = 92, col_timestamp = at_noon\<rparr>
       \<lparr>col_id = j, col_entry_text = ''earlier'', col_primary_emotion = ''joy'',
         col_primary_score = 92, col_timestamp = at_noon\<rparr>) [1..<31]"
    by (rule sorted_wrt_mono_rel [rotated]) (simp add: precedes_def env_ok_def)
  then show ?thesis
    by (auto simp: busy_db_def sorted_wrt_append sorted_wrt_map precedes_def env_ok_def)
qed

text \<open>
  Claim C6 as stated fails: the listing is cut at 30 and the order of equal timestamps is
  the server's, so a record stored in the second in which thirty others were stored is
  not listed by a server that returns equal keys by ascending id.
\<close>

theorem latest_entry_not_listed:
  "response (add_entry (env_ok thrilled_reply) busy_db (text_body ''latest'')) =
     JsonResponse 200 (success_body (JStr ''joy'') (JNum 92)) \<and>
   rows (store (add_entry (env_ok thrilled_reply) busy_db (text_body ''latest''))) =
     rows busy_db @
       [\<lparr>col_id = 31, col_entry_text = ''latest'', col_primary_emotion = ''joy'',
         col_primary_score = 92, col_timestamp = at_noon\<rparr>] \<and>
   response (get_moods (env_ok thrilled_reply)
     (store (add_entry (env_ok thrilled_reply) busy_db (text_body ''latest'')))) =
     JsonEntries 200 (map format_entry (rows busy_db)) \<and>
   ''latest'' \<notin> entry_text_field ` set (map format_entry (rows busy_db))"
proof -
  let ?new = "\<lparr>col_id = 31, col_entry_text = ''latest'', col_primary_emotion = ''joy'',
         col_primary_score = 92, col_timestamp = at_noon\<rparr>"
  have out: "add_entry (env_ok thrilled_reply) busy_db (text_body ''latest'') =
     save_entry (env_ok thrilled_reply) busy_db (JStr ''latest'') (JStr ''joy'') (JNum 92)"
    by (simp add: add_entry_def method_get_def text_body_def analyze_emotion_def
          thrilled_reply_def subscript_str_def primary_def py_max_def dict_keys_def
          dict_get_def dict_subscript_def env_ok_def)
  have saved: "save_entry (env_ok thrilled_reply) busy_db (JStr ''latest'') (JStr ''joy'') (JNum 92) =
     \<lparr>response = JsonResponse 200 (success_body (JStr ''joy'') (JNum 92)),
      store = busy_db\<lparr>rows := rows busy_db @ [?new], auto_increment := 32\<rparr>,
      effects = [ClassifierPost (JStr ''latest''), DbConnect,
                 DbInsert (JStr ''latest'') (JStr ''joy'') (JNum 92)]\<rparr>"
    by (simp add: save_entry_def get_db_connection_def execute_insert_def to_mysql_def
          decimal_5_2_def round_half_away_def floor_rat_numeral env_ok_def busy_db_def)
  have len: "length (rows busy_db) = 30" by (simp add: busy_db_def)
  have "list_recent (env_ok thrilled_reply) 30 (rows busy_db @ [?new]) = rows busy_db"
    by (simp add: list_recent_def order_by_sorted [OF busy_db_sorted] len)
  then have listing: "response (get_moods (env_ok thrilled_reply)
       (busy_db\<lparr>rows := rows busy_db @ [?new], auto_increment := 32\<rparr>)) =
     JsonEntries 200 (map format_entry (rows busy_db))"
    by (simp add: get_moods_def get_db_connection_def env_ok_def)
  have absent: "''latest'' \<notin> entry_text_field ` set (map format_entry (rows busy_db))"
    by (auto simp: busy_db_def format_entry_def)
  show ?thesis
    using listing absent by (simp add: out saved)
qed

section \<open>The primary emotion\<close>














end
